theory Spec2Isabelle
  imports Complex_Main "HOL-Library.AList" "HOL-Library.Multiset" "HOL-Library.Sublist"
begin

section \<open>Strings and character classes\<close>

text \<open>
  A Python \<open>str\<close> is modelled as a \<open>string\<close> whose characters are the code points
  0..255. On that range the classes of the \<open>re\<close> module and \<open>str.lower\<close> are the
  following: \<open>\d\<close> is the ten ASCII digits; \<open>\s\<close> is 9..13, 28..32, 133 and 160;
  \<open>lower\<close> adds 32 to \<open>A\<close>..\<open>Z\<close> and to 192..222 except 215.
  A Python argument that may be \<open>None\<close> is a \<open>string option\<close>.
\<close>

definition is_digit :: "char \<Rightarrow> bool" where
  "is_digit c = (let n = (of_char c :: nat) in 48 \<le> n \<and> n \<le> 57)"

definition is_space :: "char \<Rightarrow> bool" where
  "is_space c = (let n = (of_char c :: nat) in
     (9 \<le> n \<and> n \<le> 13) \<or> (28 \<le> n \<and> n \<le> 32) \<or> n = 133 \<or> n = 160)"

definition is_ascii_alpha :: "char \<Rightarrow> bool" where
  "is_ascii_alpha c = (let n = (of_char c :: nat) in
     (65 \<le> n \<and> n \<le> 90) \<or> (97 \<le> n \<and> n \<le> 122))"

definition lower_char :: "char \<Rightarrow> char" where
  "lower_char c = (let n = (of_char c :: nat) in
     if (65 \<le> n \<and> n \<le> 90) \<or> (192 \<le> n \<and> n \<le> 222 \<and> n \<noteq> 215)
     then char_of (n + 32) else c)"

definition lower :: "string \<Rightarrow> string" where
  "lower s = map lower_char s"

text \<open>Python truthiness of an optional string: \<open>None\<close> and \<open>''\<close> are false.\<close>

fun truthy :: "string option \<Rightarrow> bool" where
  "truthy None = False"
| "truthy (Some s) = (s \<noteq> [])"

definition startswith :: "string \<Rightarrow> string \<Rightarrow> bool" where
  "startswith s p = (take (length p) s = p)"

text \<open>\<open>re.match\<close> of a literal prefix: the rest of the string after it, if it is there.\<close>

definition after_prefix :: "string \<Rightarrow> string \<Rightarrow> string option" where
  "after_prefix p s = (if startswith s p then Some (drop (length p) s) else None)"

section \<open>Normalizers of \<open>company_matcher.py\<close>\<close>

subsection \<open>\<open>_normalize_phone\<close>\<close>

text \<open>\<open>re.sub(r'[^\d+]', '', phone)\<close>: every character that is neither a digit nor
  \<open>+\<close> is removed, wherever it stands.\<close>

definition keep_digits_plus :: "string \<Rightarrow> string" where
  "keep_digits_plus s = filter (\<lambda>c. is_digit c \<or> c = CHR ''+'') s"

text \<open>\<open>normalized[1:]\<close> when \<open>normalized.startswith('+')\<close>.\<close>

definition drop_leading_plus :: "string \<Rightarrow> string" where
  "drop_leading_plus s = (if startswith s ''+'' then drop 1 s else s)"

text \<open>\<open>normalized[-10:]\<close> when \<open>len(normalized) > 10\<close>.\<close>

definition last10 :: "string \<Rightarrow> string" where
  "last10 s = (if length s > 10 then drop (length s - 10) s else s)"

definition normalize_phone :: "string option \<Rightarrow> string option" where
  "normalize_phone phone =
     (if \<not> truthy phone then None
      else case phone of
             None \<Rightarrow> None
           | Some p \<Rightarrow> Some (last10 (drop_leading_plus (keep_digits_plus p))))"

subsection \<open>\<open>_normalize_facebook_url\<close>\<close>

text \<open>\<open>re.sub(r'^https?://(www\.)?', '', s)\<close>: the pattern is anchored at the start, so
  at most one occurrence is removed.\<close>

definition strip_www :: "string \<Rightarrow> string" where
  "strip_www s = (case after_prefix ''www.'' s of Some r \<Rightarrow> r | None \<Rightarrow> s)"

definition strip_scheme_www :: "string \<Rightarrow> string" where
  "strip_scheme_www s =
     (case after_prefix ''https://'' s of
        Some r \<Rightarrow> strip_www r
      | None \<Rightarrow> (case after_prefix ''http://'' s of
                   Some r \<Rightarrow> strip_www r
                 | None \<Rightarrow> s))"

text \<open>The class \<open>[a-zA-Z0-9\.\-\_]\<close> of the first two patterns.\<close>

definition is_handle_char :: "char \<Rightarrow> bool" where
  "is_handle_char c =
     (is_ascii_alpha c \<or> is_digit c \<or> c = CHR ''.'' \<or> c = CHR ''-'' \<or> c = CHR ''_'')"

text \<open>
  \<open>re.match(prefix + '(' + class + '+)/?.*', url)\<close>: the literal prefix, then the longest
  run of class characters, which must not be empty; the tail \<open>/?.*\<close> matches the empty
  string, so it never makes the match fail and never shortens the group. The result is
  \<open>group(1)\<close>.
\<close>

definition match_group :: "string \<Rightarrow> (char \<Rightarrow> bool) \<Rightarrow> string \<Rightarrow> string option" where
  "match_group pre cls url =
     (case after_prefix pre url of
        None \<Rightarrow> None
      | Some rest \<Rightarrow>
          (let g = takeWhile cls rest in if g = [] then None else Some g))"

text \<open>The list \<open>facebook_patterns\<close>, in the order of the source.\<close>

definition facebook_patterns :: "(string \<times> (char \<Rightarrow> bool)) list" where
  "facebook_patterns =
     [(''facebook.com/'', is_handle_char),
      (''fb.com/'', is_handle_char),
      (''facebook.com/profile.php?id='', is_digit)]"

text \<open>The loop \<open>for pattern in facebook_patterns\<close>: the first pattern that matches
  returns; after the loop the stripped url is returned.\<close>

fun first_match :: "(string \<times> (char \<Rightarrow> bool)) list \<Rightarrow> string \<Rightarrow> string" where
  "first_match [] url = lower url"
| "first_match ((pre, cls) # ps) url =
     (case match_group pre cls url of
        Some g \<Rightarrow> lower g
      | None \<Rightarrow> first_match ps url)"

definition normalize_facebook_url :: "string option \<Rightarrow> string option" where
  "normalize_facebook_url url =
     (if \<not> truthy url then None
      else case url of
             None \<Rightarrow> None
           | Some u \<Rightarrow> Some (first_match facebook_patterns (strip_scheme_www (lower u))))"



subsection \<open>\<open>_clean_string_list\<close>\<close>


text \<open>The values \<open>ast.literal_eval\<close> returns, as far as they are needed here.\<close>

datatype pyval = PNone | PBool bool | PInt int | PStr string | PList "pyval list"
  | PTuple "pyval list"




section \<open>The matcher of \<open>company_matcher.py\<close>\<close>

subsection \<open>The index store and the libraries\<close>

text \<open>
  The \<open>_source\<close> of a hit: an indexed company document. \<open>match_company\<close> reads
  \<open>company_id\<close> and the two name fields (\<open>None\<close>: the key is missing or its value is
  \<open>None\<close>) and writes \<open>match_score\<close>; the key fields are here for the fixtures. The
  other fields of a document are carried along untouched and are left out.
\<close>

record source =
  company_id :: string
  domain :: string
  company_commercial_name :: "string option"
  company_legal_name :: "string option"
  phones_normalized :: "string list"
  facebook_links_normalized :: "string list"
  match_score :: "real option"

record hit =
  hit_source :: source
  hit_score :: real

text \<open>The query bodies that \<open>match_company\<close> builds: \<open>term\<close>, \<open>match\<close>, \<open>match\<close> with
  \<open>fuzziness: AUTO\<close>, \<open>bool/should\<close>, and \<open>multi_match\<close> (query string, fields) of type
  \<open>best_fields\<close> with \<open>fuzziness: AUTO\<close>.\<close>

datatype query =
    Term string string
  | Match string string
  | MatchFuzzy string string
  | BoolShould "query list"
  | MultiMatch string "string list"

text \<open>
  What the program does not contain is a parameter: \<open>es_search q n\<close> is the list
  \<open>response['hits']['hits']\<close> of \<open>es.search(index=INDEX_NAME, query=q, size=n)\<close>;
  \<open>tldextract\<close> gives the pair (domain, suffix) of \<open>tldextract.extract\<close>, or \<open>None\<close> when
  it raises; \<open>urlparse_netloc\<close> is \<open>urlparse(url).netloc\<close>, or \<open>None\<close> when it raises.
  The store is one that answers: an exception of \<open>es.search\<close> is caught nowhere in
  \<open>match_company\<close> and ends the call.
\<close>

record env =
  es_search :: "query \<Rightarrow> nat \<Rightarrow> hit list"
  tldextract :: "string \<Rightarrow> (string \<times> string) option"
  urlparse_netloc :: "string \<Rightarrow> string option"

subsection \<open>\<open>_extract_domain\<close>\<close>

definition extract_domain :: "env \<Rightarrow> string option \<Rightarrow> string option" where
  "extract_domain e url =
     (case url of
        None \<Rightarrow> None
      | Some u \<Rightarrow>
          if u = [] then None
          else
            (let u' = (if startswith u ''http://'' \<or> startswith u ''https://'' then u
                       else ''http://'' @ u)
             in case tldextract e u' of
                  Some (d, sfx) \<Rightarrow> Some (lower (d @ ''.'' @ sfx))
                | None \<Rightarrow>
                    (case urlparse_netloc e u' of
                       Some netloc \<Rightarrow> Some (lower netloc)
                     | None \<Rightarrow> Some (lower u'))))"

subsection \<open>Name similarity\<close>

text \<open>\<open>Levenshtein.distance\<close>: the number of insertions, deletions and substitutions.\<close>

fun levenshtein_distance :: "string \<Rightarrow> string \<Rightarrow> nat" where
  "levenshtein_distance [] ys = length ys"
| "levenshtein_distance (x # xs) [] = Suc (length xs)"
| "levenshtein_distance (x # xs) (y # ys) =
     min (min (levenshtein_distance xs (y # ys) + 1) (levenshtein_distance (x # xs) ys + 1))
         (levenshtein_distance xs ys + (if x = y then 0 else 1))"

definition similarity :: "string \<Rightarrow> string \<Rightarrow> real" where
  "similarity name field =
     1 - real (levenshtein_distance (lower name) (lower field))
         / real (max (length name) (length field))"

text \<open>The inner loop over \<open>['company_commercial_name', 'company_legal_name']\<close>, begun
  with \<open>best_name_match = 0\<close>.\<close>

definition best_name_match :: "string \<Rightarrow> source \<Rightarrow> real" where
  "best_name_match name src =
     fold (\<lambda>field best.
             case field of
               None \<Rightarrow> best
             | Some f \<Rightarrow> if f = [] then best else max best (similarity name f))
          [company_commercial_name src, company_legal_name src] 0"

definition name_score :: "string \<Rightarrow> source \<Rightarrow> real" where
  "name_score name src = best_name_match name src * 5"

subsection \<open>\<open>match_company\<close>\<close>

text \<open>
  The local state of a call: the dict \<open>match_scores\<close> as the list of its items in
  insertion order, the list \<open>results\<close>, and the searches sent to the store so far.
\<close>

record mstate =
  match_scores :: "(string \<times> real) list"
  results :: "source list"
  searches :: "(query \<times> nat) list"

definition init_state :: mstate where
  "init_state = \<lparr>match_scores = [], results = [], searches = []\<rparr>"

text \<open>\<open>match_scores[company_id] = match_scores.get(company_id, 0) + w\<close>: an existing key
  keeps its place, a new one goes to the end.\<close>

definition add_score :: "string \<Rightarrow> real \<Rightarrow> (string \<times> real) list \<Rightarrow> (string \<times> real) list" where
  "add_score cid w m =
     AList.update cid ((case map_of m cid of None \<Rightarrow> 0 | Some v \<Rightarrow> v) + w) m"

text \<open>The body of every loop over the hits of a response.\<close>

definition record_hit :: "real \<Rightarrow> source \<Rightarrow> mstate \<Rightarrow> mstate" where
  "record_hit w src s =
     s\<lparr>match_scores := add_score (company_id src) w (match_scores s),
       results := results s @ [src]\<rparr>"

definition log_search :: "query \<Rightarrow> nat \<Rightarrow> mstate \<Rightarrow> mstate" where
  "log_search q n s = s\<lparr>searches := searches s @ [(q, n)]\<rparr>"

definition domain_probe :: "env \<Rightarrow> string option \<Rightarrow> mstate \<Rightarrow> mstate" where
  "domain_probe e website s =
     (if truthy website then
        (case extract_domain e website of
           None \<Rightarrow> s
         | Some d \<Rightarrow>
             if d = [] then s
             else
               (let domain_query = Term ''domain'' d
                in fold (\<lambda>h. record_hit 10 (hit_source h))
                     (es_search e domain_query 5) (log_search domain_query 5 s)))
      else s)"

definition phone_probe :: "env \<Rightarrow> string option \<Rightarrow> mstate \<Rightarrow> mstate" where
  "phone_probe e phone s =
     (if truthy phone then
        (case normalize_phone phone of
           None \<Rightarrow> s
         | Some normalized_phone \<Rightarrow>
             if normalized_phone = [] then s
             else
               (let phone_query = Match ''phones_normalized'' normalized_phone
                in fold (\<lambda>h. record_hit 8 (hit_source h))
                     (es_search e phone_query 5) (log_search phone_query 5 s)))
      else s)"

definition facebook_probe :: "env \<Rightarrow> string option \<Rightarrow> mstate \<Rightarrow> mstate" where
  "facebook_probe e facebook s =
     (if truthy facebook then
        (case normalize_facebook_url facebook of
           None \<Rightarrow> s
         | Some normalized_fb \<Rightarrow>
             if normalized_fb = [] then s
             else
               (let fb_query = Match ''facebook_links_normalized'' normalized_fb
                in fold (\<lambda>h. record_hit 6 (hit_source h))
                     (es_search e fb_query 5) (log_search fb_query 5 s)))
      else s)"

definition name_query :: "string \<Rightarrow> query" where
  "name_query name =
     BoolShould [MatchFuzzy ''company_commercial_name'' name,
                 MatchFuzzy ''company_legal_name'' name,
                 MatchFuzzy ''company_all_names'' name]"

definition name_probe :: "env \<Rightarrow> string option \<Rightarrow> mstate \<Rightarrow> mstate" where
  "name_probe e name s =
     (case name of
        None \<Rightarrow> s
      | Some n \<Rightarrow>
          if n = [] then s
          else fold (\<lambda>h. record_hit (name_score n (hit_source h)) (hit_source h))
                 (es_search e (name_query n) 10) (log_search (name_query n) 10 s))"

text \<open>The state after the four field probes, in the order of the source.\<close>

definition primary_probes ::
  "env \<Rightarrow> string option \<Rightarrow> string option \<Rightarrow> string option \<Rightarrow> string option \<Rightarrow> mstate" where
  "primary_probes e name website phone facebook =
     name_probe e name
       (facebook_probe e facebook
          (phone_probe e phone
             (domain_probe e website init_state)))"

text \<open>\<open>" ".join(parts)\<close>.\<close>

fun join_space :: "string list \<Rightarrow> string" where
  "join_space [] = []"
| "join_space [p] = p"
| "join_space (p # q # ps) = p @ '' '' @ join_space (q # ps)"

text \<open>The lists \<open>fields\<close> and \<open>query_parts.values()\<close> of the fallback block.\<close>

definition fallback_fields ::
  "string option \<Rightarrow> string option \<Rightarrow> string option \<Rightarrow> string option \<Rightarrow> string list" where
  "fallback_fields name website phone facebook =
     (if truthy name
      then [''company_commercial_name^3'', ''company_legal_name^2'', ''company_all_names'']
      else [])
     @ (if truthy website then [''website''] else [])
     @ (if truthy phone then [''phones''] else [])
     @ (if truthy facebook then [''facebook_links''] else [])"

definition query_parts ::
  "string option \<Rightarrow> string option \<Rightarrow> string option \<Rightarrow> string option \<Rightarrow> string list" where
  "query_parts name website phone facebook =
     concat (map (\<lambda>v. case v of None \<Rightarrow> [] | Some x \<Rightarrow> if x = [] then [] else [x])
               [name, website, phone, facebook])"

definition fallback_query ::
  "string option \<Rightarrow> string option \<Rightarrow> string option \<Rightarrow> string option \<Rightarrow> query" where
  "fallback_query name website phone facebook =
     MultiMatch (join_space (query_parts name website phone facebook))
                (fallback_fields name website phone facebook)"

definition fallback_probe ::
  "env \<Rightarrow> string option \<Rightarrow> string option \<Rightarrow> string option \<Rightarrow> string option \<Rightarrow>
   mstate \<Rightarrow> mstate" where
  "fallback_probe e name website phone facebook s =
     (if match_scores s = [] then
        (if fallback_fields name website phone facebook \<noteq> []
            \<and> query_parts name website phone facebook \<noteq> []
         then
           (let q = fallback_query name website phone facebook
            in fold (\<lambda>h. record_hit (hit_score h / 10) (hit_source h))
                 (es_search e q 10) (log_search q 10 s))
         else s)
      else s)"

text \<open>\<open>max(items, key=lambda x: x[1])\<close>: the first item among those of greatest score;
  a later item replaces the best one only when its score is strictly greater.\<close>

fun max_item :: "(string \<times> real) \<Rightarrow> (string \<times> real) list \<Rightarrow> (string \<times> real)" where
  "max_item best [] = best"
| "max_item best (x # xs) = max_item (if snd best < snd x then x else best) xs"

datatype lookup_error = KeyError

text \<open>
  The block \<open># Get best match\<close>. \<open>if best_match:\<close> tests a dict that holds at least
  \<open>company_id\<close>, so it is the test that the search through \<open>results\<close> found one.
\<close>

definition select_best :: "mstate \<Rightarrow> lookup_error + source option" where
  "select_best s =
     (case match_scores s of
        [] \<Rightarrow> Inr None
      | item # items \<Rightarrow>
          (let best_match_id = fst (max_item item items)
           in case find (\<lambda>result. company_id result = best_match_id) (results s) of
                None \<Rightarrow> Inr None
              | Some best_match \<Rightarrow>
                  (case map_of (match_scores s) best_match_id of
                     None \<Rightarrow> Inl KeyError
                   | Some v \<Rightarrow> Inr (Some (best_match\<lparr>match_score := Some v\<rparr>)))))"

definition final_state ::
  "env \<Rightarrow> string option \<Rightarrow> string option \<Rightarrow> string option \<Rightarrow> string option \<Rightarrow> mstate" where
  "final_state e name website phone facebook =
     fallback_probe e name website phone facebook
       (primary_probes e name website phone facebook)"

text \<open>The value returned, and beside it the searches the call has sent to the store.\<close>

definition match_company ::
  "env \<Rightarrow> string option \<Rightarrow> string option \<Rightarrow> string option \<Rightarrow> string option \<Rightarrow>
   (lookup_error + source option) \<times> (query \<times> nat) list" where
  "match_company e name website phone facebook =
     (let s = final_state e name website phone facebook
      in (select_best s, searches s))"

subsection \<open>The candidates of a query\<close>

text \<open>
  A candidate is a hit of a probe together with the score that hit contributes. The
  lists below name, probe by probe and in the order of the hits, what the loops of
  \<open>match_company\<close> go through; the fallback contributes only when the four field probes
  gave nothing.
\<close>

definition domain_candidates :: "env \<Rightarrow> string option \<Rightarrow> (source \<times> real) list" where
  "domain_candidates e website =
     (if truthy website then
        (case extract_domain e website of
           None \<Rightarrow> []
         | Some d \<Rightarrow>
             if d = [] then []
             else map (\<lambda>h. (hit_source h, 10)) (es_search e (Term ''domain'' d) 5))
      else [])"

definition phone_candidates :: "env \<Rightarrow> string option \<Rightarrow> (source \<times> real) list" where
  "phone_candidates e phone =
     (if truthy phone then
        (case normalize_phone phone of
           None \<Rightarrow> []
         | Some p \<Rightarrow>
             if p = [] then []
             else map (\<lambda>h. (hit_source h, 8)) (es_search e (Match ''phones_normalized'' p) 5))
      else [])"

definition facebook_candidates :: "env \<Rightarrow> string option \<Rightarrow> (source \<times> real) list" where
  "facebook_candidates e facebook =
     (if truthy facebook then
        (case normalize_facebook_url facebook of
           None \<Rightarrow> []
         | Some f \<Rightarrow>
             if f = [] then []
             else map (\<lambda>h. (hit_source h, 6))
                    (es_search e (Match ''facebook_links_normalized'' f) 5))
      else [])"

definition name_candidates :: "env \<Rightarrow> string option \<Rightarrow> (source \<times> real) list" where
  "name_candidates e name =
     (case name of
        None \<Rightarrow> []
      | Some n \<Rightarrow>
          if n = [] then []
          else map (\<lambda>h. (hit_source h, name_score n (hit_source h)))
                 (es_search e (name_query n) 10))"

definition primary_candidates ::
  "env \<Rightarrow> string option \<Rightarrow> string option \<Rightarrow> string option \<Rightarrow> string option \<Rightarrow>
   (source \<times> real) list" where
  "primary_candidates e name website phone facebook =
     domain_candidates e website @ phone_candidates e phone
       @ facebook_candidates e facebook @ name_candidates e name"




text \<open>The dict \<open>match_scores\<close> after the candidates \<open>cs\<close> have been added to \<open>m\<close>.\<close>

definition tally :: "(source \<times> real) list \<Rightarrow> (string \<times> real) list \<Rightarrow> (string \<times> real) list" where
  "tally cs m = fold (\<lambda>c. add_score (company_id (fst c)) (snd c)) cs m"

subsection \<open>A small store for the concrete instances\<close>

definition acme :: source where
  "acme = \<lparr>company_id = ''0'', domain = ''acme.com'',
            company_commercial_name = Some ''Acme Inc.'',
            company_legal_name = Some ''Acme Incorporated'',
            phones_normalized = [''4155550123''],
            facebook_links_normalized = [''acmeco''],
            match_score = None\<rparr>"

definition bolt :: source where
  "bolt = \<lparr>company_id = ''1'', domain = ''bolt.io'',
            company_commercial_name = Some ''Bolt'',
            company_legal_name = None,
            phones_normalized = [''4155550123''],
            facebook_links_normalized = [],
            match_score = None\<rparr>"

text \<open>
  The store holds \<open>bolt\<close> and \<open>acme\<close>, in this order. A \<open>term\<close> or \<open>match\<close> query on a key
  field is answered by the documents that hold the value, a name query by the documents
  whose commercial name begins with the same four letters, and a \<open>multi_match\<close> by
  \<open>bolt\<close> alone with store score 25 when the query string is \<open>zzz\<close>.
\<close>

definition sample_hit :: "real \<Rightarrow> source \<Rightarrow> hit" where
  "sample_hit sc src = \<lparr>hit_source = src, hit_score = sc\<rparr>"

fun sample_matches :: "query \<Rightarrow> source \<Rightarrow> bool" where
  "sample_matches (Term f v) src = (f = ''domain'' \<and> domain src = v)"
| "sample_matches (Match f v) src =
     ((f = ''phones_normalized'' \<and> v \<in> set (phones_normalized src))
      \<or> (f = ''facebook_links_normalized'' \<and> v \<in> set (facebook_links_normalized src)))"
| "sample_matches (MatchFuzzy f v) src =
     (case company_commercial_name src of
        None \<Rightarrow> False
      | Some c \<Rightarrow> f = ''company_commercial_name'' \<and> take 4 (lower c) = take 4 (lower v))"
| "sample_matches (BoolShould qs) src = list_ex (\<lambda>q. sample_matches q src) qs"
| "sample_matches (MultiMatch v fs) src = (v = ''zzz'' \<and> company_id src = ''1'')"

definition sample_search :: "query \<Rightarrow> nat \<Rightarrow> hit list" where
  "sample_search q n =
     take n (map (sample_hit (case q of MultiMatch v fs \<Rightarrow> 25 | _ \<Rightarrow> 1))
               (filter (sample_matches q) [bolt, acme]))"

definition sample_env :: env where
  "sample_env =
     \<lparr>es_search = sample_search,
      tldextract = (\<lambda>url. if url = ''http://acme.com'' then Some (''acme'', ''com'')
                          else None),
      urlparse_netloc = (\<lambda>url. None)\<rparr>"

section \<open>Extractors and pipeline of \<open>web_scraper.py\<close>\<close>

subsection \<open>\<open>extract_phones\<close>\<close>

text \<open>The class \<open>[\d\s\-\(\)]\<close> of \<open>phone_pattern\<close>.\<close>

definition is_phone_char :: "char \<Rightarrow> bool" where
  "is_phone_char c =
     (is_digit c \<or> is_space c \<or> c = CHR ''-'' \<or> c = CHR ''('' \<or> c = CHR '')'')"

text \<open>
  \<open>phone_pattern = (\+?[\d\s\-\(\)]{8,20})\<close> tried at the start of \<open>s\<close>: \<open>\+?\<close> takes a
  \<open>+\<close> when there is one, \<open>{8,20}\<close> is greedy and takes up to 20 class characters, and
  the match fails with fewer than 8. Backtracking over \<open>\+?\<close> cannot help, because \<open>+\<close>
  is not in the class.
\<close>

definition phone_match_at :: "string \<Rightarrow> string option" where
  "phone_match_at s =
     (let plus = (if startswith s ''+'' then ''+'' else []);
          run = take 20 (takeWhile is_phone_char (drop (length plus) s))
      in if 8 \<le> length run then Some (plus @ run) else None)"

lemma phone_match_at_length: "phone_match_at s = Some m \<Longrightarrow> 8 \<le> length m"
  by (auto simp: phone_match_at_def Let_def split: if_splits)

text \<open>\<open>phone_pattern.findall(text)\<close>: the matches from left to right, the search going
  on behind the end of a match, or one character further where there is none.\<close>

function findall_phone :: "string \<Rightarrow> string list" where
  "findall_phone [] = []"
| "findall_phone (c # cs) =
     (case phone_match_at (c # cs) of
        None \<Rightarrow> findall_phone cs
      | Some m \<Rightarrow> m # findall_phone (drop (length m) (c # cs)))"
  by pat_completeness auto
termination
proof (relation "measure length")
  fix c cs m
  assume "phone_match_at (c # cs) = Some m"
  then have "8 \<le> length m" by (rule phone_match_at_length)
  then show "(drop (length m) (c # cs), c # cs) \<in> measure length" by simp
qed auto

text \<open>
  \<open>list(set(cleaned_phones))\<close> has no order that the program fixes, so the model returns
  the set. The test \<open>len(cleaned) >= 8\<close> counts the characters of the cleaned string, a
  leading \<open>+\<close> included.
\<close>

definition extract_phones :: "string \<Rightarrow> string set" where
  "extract_phones text =
     (if text = [] then {}
      else set (filter (\<lambda>cleaned. 8 \<le> length cleaned)
                  (map keep_digits_plus (findall_phone text))))"

subsection \<open>\<open>batch_scrape\<close>\<close>

text \<open>A result row is a Python dict with string keys, kept as the list of its items.\<close>

datatype jval = JStr string | JInt int | JList "string list"






section \<open>Properties of the normalizers\<close>





lemma normalize_phone_Some:
  "s \<noteq> [] \<Longrightarrow>
   normalize_phone (Some s) = Some (last10 (drop_leading_plus (keep_digits_plus s)))"
  by (simp add: normalize_phone_def)

lemma normalize_phone_length: "normalize_phone x = Some r \<Longrightarrow> length r \<le> 10"
  by (auto simp: normalize_phone_def last10_def split: if_splits option.splits)

lemma digits_fixed:
  assumes "list_all is_digit r"
  shows "keep_digits_plus r = r" and "r \<noteq> [] \<Longrightarrow> drop_leading_plus r = r"
proof -
  show "keep_digits_plus r = r"
    using assms by (simp add: keep_digits_plus_def list_all_iff)
  assume "r \<noteq> []"
  then obtain c cs where "r = c # cs" by (cases r) auto
  moreover have "\<not> is_digit CHR ''+''" by (simp add: is_digit_def)
  ultimately show "drop_leading_plus r = r"
    using assms by (auto simp: drop_leading_plus_def startswith_def)
qed




text \<open>
  C5 (as the code has it). Normalizing twice gives the same as normalizing once whenever
  the first result is \<open>None\<close> or a non-empty string of digits.
\<close>

theorem normalize_phone_idempotent_on_digits:
  assumes "normalize_phone x = None \<or>
           (\<exists>r. normalize_phone x = Some r \<and> r \<noteq> [] \<and> list_all is_digit r)"
  shows "normalize_phone (normalize_phone x) = normalize_phone x"
  using assms
proof
  assume "normalize_phone x = None"
  then show ?thesis by (simp add: normalize_phone_def)
next
  assume "\<exists>r. normalize_phone x = Some r \<and> r \<noteq> [] \<and> list_all is_digit r"
  then obtain r where r: "normalize_phone x = Some r" "r \<noteq> []" "list_all is_digit r"
    by blast
  have "length r \<le> 10" using r(1) by (rule normalize_phone_length)
  then have "last10 r = r" by (simp add: last10_def)
  then have "normalize_phone (Some r) = Some r"
    using r(2) digits_fixed [OF r(3)] by (simp add: normalize_phone_Some)
  then show ?thesis using r(1) by simp
qed

theorem normalize_phone_idempotent_on_digits_witness:
  "normalize_phone (Some ''+1 (415) 555-0123'') = Some ''4155550123'' \<and>
   normalize_phone (normalize_phone (Some ''+1 (415) 555-0123'')) =
     normalize_phone (Some ''+1 (415) 555-0123'')"
proof -
  have e: "normalize_phone (Some ''+1 (415) 555-0123'') = Some ''4155550123''"
    by code_simp
  have d: "list_all is_digit ''4155550123''" by code_simp
  have "normalize_phone (Some ''+1 (415) 555-0123'') = None \<or>
        (\<exists>r. normalize_phone (Some ''+1 (415) 555-0123'') = Some r \<and> r \<noteq> [] \<and>
             list_all is_digit r)"
    using e d by simp
  from normalize_phone_idempotent_on_digits [OF this] e show ?thesis by simp
qed

text \<open>An input without digits is normalized to the empty string, and the empty string
  to \<open>None\<close>.\<close>

theorem normalize_phone_idempotent_counterexample:
  "normalize_phone (normalize_phone (Some ''abc'')) \<noteq> normalize_phone (Some ''abc'')"
  by code_simp

text \<open>A second leading \<open>+\<close> survives the first pass and is removed by the next one.\<close>

lemma normalize_phone_double_plus:
  "normalize_phone (Some ''++1'') = Some ''+1'' \<and> normalize_phone (Some ''+1'') = Some ''1''"
  by code_simp

text \<open>
  C6. On a \<open>profile.php?id=\<close> url the first pattern of the list already matches and its
  group is \<open>profile.php\<close>; the id pattern, third in the list, is never tried.
\<close>

theorem normalize_facebook_url_profile_id:
  "normalize_facebook_url (Some ''https://www.facebook.com/profile.php?id=12345'')
     = Some ''profile.php''"
  by code_simp

lemma normalize_facebook_url_acme:
  "normalize_facebook_url (Some ''https://facebook.com/Acme'') = Some ''acme''"
  by code_simp

text \<open>Wherever the id pattern would match, the first pattern matches before it, with
  the group \<open>profile.php\<close>.\<close>

lemma profile_pattern_shadowed:
  assumes "match_group ''facebook.com/profile.php?id='' is_digit url = Some g"
  shows "match_group ''facebook.com/'' is_handle_char url = Some ''profile.php''"
proof -
  have "startswith url ''facebook.com/profile.php?id=''"
    using assms by (auto simp: match_group_def after_prefix_def split: if_splits)
  then have "take (length ''facebook.com/profile.php?id='') url = ''facebook.com/profile.php?id=''"
    unfolding startswith_def .
  then obtain rest where url: "url = ''facebook.com/profile.php?id='' @ rest"
    by (metis append_take_drop_id)
  have h: "is_handle_char CHR ''p''" "is_handle_char CHR ''r''" "is_handle_char CHR ''o''"
    "is_handle_char CHR ''f''" "is_handle_char CHR ''i''" "is_handle_char CHR ''l''"
    "is_handle_char CHR ''e''" "is_handle_char CHR ''.''" "is_handle_char CHR ''h''"
    "\<not> is_handle_char CHR ''?''"
    by (simp_all add: is_handle_char_def is_ascii_alpha_def is_digit_def)
  show ?thesis
    unfolding url using h
    by (simp add: match_group_def after_prefix_def startswith_def)
qed

section \<open>Properties of the dataset builder and the scraper\<close>






text \<open>The length test counts the leading \<open>+\<close>: seven digits behind a \<open>+\<close> pass it.\<close>

lemma extract_phones_seven_digits: "extract_phones ''+12 34 567'' = {''+1234567''}"
  by code_simp




section \<open>Properties of the matcher\<close>

subsection \<open>The state after the probes\<close>

lemma tally_Nil: "tally [] m = m"
  by (simp add: tally_def)

lemma tally_Cons: "tally (c # cs) m = tally cs (add_score (company_id (fst c)) (snd c) m)"
  by (simp add: tally_def)

lemma tally_append: "tally (a @ b) m = tally b (tally a m)"
  by (simp add: tally_def)

lemma fold_record_hit_scores:
  "match_scores (fold (\<lambda>h. record_hit (w h) (hit_source h)) hs s)
     = tally (map (\<lambda>h. (hit_source h, w h)) hs) (match_scores s)"
  by (induction hs arbitrary: s) (simp_all add: tally_def record_hit_def)

lemma fold_record_hit_results:
  "results (fold (\<lambda>h. record_hit (w h) (hit_source h)) hs s) = results s @ map hit_source hs"
  by (induction hs arbitrary: s) (simp_all add: record_hit_def)

lemma fold_record_hit_searches:
  "searches (fold (\<lambda>h. record_hit (w h) (hit_source h)) hs s) = searches s"
  by (induction hs arbitrary: s) (simp_all add: record_hit_def)

lemma log_search_fields:
  "match_scores (log_search q n s) = match_scores s"
  "results (log_search q n s) = results s"
  "searches (log_search q n s) = searches s @ [(q, n)]"
  by (simp_all add: log_search_def)

lemmas probe_simps = fold_record_hit_scores fold_record_hit_results log_search_fields
  tally_Nil Let_def comp_def

lemma domain_probe_state:
  "match_scores (domain_probe e website s) = tally (domain_candidates e website) (match_scores s)"
  "results (domain_probe e website s) = results s @ map fst (domain_candidates e website)"
  by (simp_all add: domain_probe_def domain_candidates_def probe_simps split: option.splits)

lemma phone_probe_state:
  "match_scores (phone_probe e phone s) = tally (phone_candidates e phone) (match_scores s)"
  "results (phone_probe e phone s) = results s @ map fst (phone_candidates e phone)"
  by (simp_all add: phone_probe_def phone_candidates_def probe_simps split: option.splits)

lemma facebook_probe_state:
  "match_scores (facebook_probe e fb s) = tally (facebook_candidates e fb) (match_scores s)"
  "results (facebook_probe e fb s) = results s @ map fst (facebook_candidates e fb)"
  by (simp_all add: facebook_probe_def facebook_candidates_def probe_simps split: option.splits)

lemma name_probe_state:
  "match_scores (name_probe e name s) = tally (name_candidates e name) (match_scores s)"
  "results (name_probe e name s) = results s @ map fst (name_candidates e name)"
  by (simp_all add: name_probe_def name_candidates_def probe_simps split: option.splits)

lemma primary_probes_state:
  "match_scores (primary_probes e name website phone facebook)
     = tally (primary_candidates e name website phone facebook) []"
  "results (primary_probes e name website phone facebook)
     = map fst (primary_candidates e name website phone facebook)"
  by (simp_all add: primary_probes_def primary_candidates_def init_state_def tally_append
        domain_probe_state phone_probe_state facebook_probe_state name_probe_state)

lemma add_score_nonempty: "add_score k w m \<noteq> []"
  by (simp add: add_score_def)

lemma tally_nonempty: "m \<noteq> [] \<Longrightarrow> tally cs m \<noteq> []"
  by (induction cs arbitrary: m) (simp_all add: tally_Nil tally_Cons add_score_nonempty)

lemma tally_empty_iff: "tally cs [] = [] \<longleftrightarrow> cs = []"
  by (cases cs) (simp_all add: tally_Nil tally_Cons tally_nonempty add_score_nonempty)




subsection \<open>The dict of scores and its greatest item\<close>


















subsection \<open>Selection\<close>

text \<open>
  C10. With all four fields absent every field probe is skipped, the lists of the
  fallback block stay empty, no search is sent to the store, and the call returns
  \<open>None\<close>.
\<close>

theorem match_company_all_absent:
  "match_company e None None None None = (Inr None, [])"
  by (simp add: match_company_def final_state_def fallback_probe_def primary_probes_def
        name_probe_def facebook_probe_def phone_probe_def domain_probe_def init_state_def
        fallback_fields_def select_best_def)

text \<open>The same holds when the four fields are empty strings.\<close>

lemma match_company_all_empty:
  "match_company e (Some []) (Some []) (Some []) (Some []) = (Inr None, [])"
  by (simp add: match_company_def final_state_def fallback_probe_def primary_probes_def
        name_probe_def facebook_probe_def phone_probe_def domain_probe_def init_state_def
        fallback_fields_def select_best_def)



subsection \<open>The fallback probe\<close>

lemma primary_searches_no_multi_match:
  "(MultiMatch v fs, n) \<notin> set (searches (primary_probes e name website phone facebook))"
  by (simp add: primary_probes_def name_probe_def facebook_probe_def phone_probe_def
        domain_probe_def init_state_def fold_record_hit_searches log_search_fields Let_def
        name_query_def split: option.splits)

lemma fallback_guard:
  "fallback_fields name website phone facebook \<noteq> []
     \<and> query_parts name website phone facebook \<noteq> []
   \<longleftrightarrow> truthy name \<or> truthy website \<or> truthy phone \<or> truthy facebook"
  by (cases name; cases website; cases phone; cases facebook)
     (simp_all add: fallback_fields_def query_parts_def)

lemma fallback_probe_searches:
  "searches (fallback_probe e name website phone facebook s)
     = (if match_scores s = []
           \<and> (truthy name \<or> truthy website \<or> truthy phone \<or> truthy facebook)
        then searches s @ [(fallback_query name website phone facebook, 10)]
        else searches s)"
  using fallback_guard [of name website phone facebook]
  by (simp add: fallback_probe_def fold_record_hit_searches log_search_fields Let_def)

lemma match_company_searches:
  "snd (match_company e name website phone facebook)
     = searches (final_state e name website phone facebook)"
  by (simp add: match_company_def Let_def)

text \<open>
  C2 (as the code has it). The fallback search is sent exactly when the dict of scores
  is empty after the four field probes and at least one of the four fields is present
  and not empty. A hit of the name probe keeps the fallback away whatever its
  similarity, since it enters the dict even with score 0.
\<close>

theorem fallback_iff_no_primary_candidate:
  "((fallback_query name website phone facebook, 10)
       \<in> set (snd (match_company e name website phone facebook))
    \<longleftrightarrow> match_scores (primary_probes e name website phone facebook) = []
        \<and> (truthy name \<or> truthy website \<or> truthy phone \<or> truthy facebook))
   \<and> (name = Some n \<and> n \<noteq> [] \<and> es_search e (name_query n) 10 \<noteq> [] \<longrightarrow>
        (fallback_query name website phone facebook, 10)
          \<notin> set (snd (match_company e name website phone facebook)))"
proof -
  have no: "(fallback_query name website phone facebook, 10)
      \<notin> set (searches (primary_probes e name website phone facebook))"
    unfolding fallback_query_def by (rule primary_searches_no_multi_match)
  have iff: "(fallback_query name website phone facebook, 10)
       \<in> set (snd (match_company e name website phone facebook))
    \<longleftrightarrow> match_scores (primary_probes e name website phone facebook) = []
        \<and> (truthy name \<or> truthy website \<or> truthy phone \<or> truthy facebook)"
    using no by (simp add: match_company_searches final_state_def fallback_probe_searches)
  have "match_scores (primary_probes e name website phone facebook) \<noteq> []"
    if "name = Some n" "n \<noteq> []" "es_search e (name_query n) 10 \<noteq> []"
  proof -
    have "name_candidates e name \<noteq> []" using that by (simp add: name_candidates_def)
    then have "primary_candidates e name website phone facebook \<noteq> []"
      by (simp add: primary_candidates_def)
    then show ?thesis by (simp add: primary_probes_state tally_empty_iff)
  qed
  with iff show ?thesis by blast
qed

theorem fallback_iff_no_primary_candidate_witness:
  "(fallback_query (Some ''zzz'') None None None, 10)
       \<in> set (snd (match_company sample_env (Some ''zzz'') None None None))
   \<and> es_search sample_env (name_query ''acme'') 10 \<noteq> []
   \<and> (fallback_query (Some ''acme'') None None None, 10)
       \<notin> set (snd (match_company sample_env (Some ''acme'') None None None))"
proof -
  have z: "match_scores (primary_probes sample_env (Some ''zzz'') None None None) = []"
    by code_simp
  have a: "es_search sample_env (name_query ''acme'') 10 \<noteq> []" by code_simp
  have "(fallback_query (Some ''zzz'') None None None, 10)
       \<in> set (snd (match_company sample_env (Some ''zzz'') None None None))"
    using fallback_iff_no_primary_candidate
            [of "Some ''zzz''" None None None sample_env, THEN conjunct1] z
    by simp
  moreover have "(fallback_query (Some ''acme'') None None None, 10)
       \<notin> set (snd (match_company sample_env (Some ''acme'') None None None))"
    using fallback_iff_no_primary_candidate
            [of "Some ''acme''" None None None sample_env "''acme''", THEN conjunct2] a
    by simp
  ultimately show ?thesis using a by simp
qed

text \<open>With all four fields absent the field probes give no candidate, and still no
  search at all is sent.\<close>

theorem fallback_without_fields_counterexample:
  "match_scores (primary_probes sample_env None None None None) = []
   \<and> snd (match_company sample_env None None None None) = []"
  by code_simp

subsection \<open>Scores are not negative\<close>














end
